theory Spec2Isabelle
  imports Main "HOL-Library.Word"
begin

section \<open>Values and data maps\<close>

text \<open>
  A Go \<^verbatim>\<open>interface{}\<close> value: the nil interface, or a value tagged with its runtime
  type. A \<^verbatim>\<open>float64\<close> is kept as its 64 bit pattern (the engine never computes on it),
  an \<^verbatim>\<open>int64\<close> as a 64 bit word.
\<close>

type_synonym float64 = "64 word"

datatype GoValue =
    GNil
  | GBool bool
  | GInt64 "64 word"
  | GUint64 "64 word"
  | GFloat64 float64
  | GString string
  | GList "GoValue list"
  | GObject nat

text \<open>\<^verbatim>\<open>map[string]interface{}\<close>: the input data of an evaluation.\<close>

type_synonym Data = "string \<rightharpoonup> GoValue"

section \<open>Types and schemas\<close>

text \<open>
  The type descriptors of \<^verbatim>\<open>rules.go\<close> (\<open>IntType\<close> is its \<^verbatim>\<open>Int\<close>). Modelled from the
  spec: the variant \<open>Proto\<close> (a message type with its name and its external
  descriptor), which the engine converts but \<^verbatim>\<open>rules.go\<close> does not declare.
\<close>

datatype Type =
    String
  | IntType
  | Float
  | Bool
  | Duration
  | Timestamp
  | Any
  | List (ValueType: Type)
  | Map (KeyType: Type) (ValueType: Type)
  | Proto (Protoname: string) (Message: GoValue)

record DataElement =
  ID :: string
  Name :: string
  Key :: string
  Type :: Type
  Description :: string

record Schema =
  ID :: string
  Elements :: "DataElement list"

section \<open>The rule set functions of rules.go\<close>

datatype SimpleRule = SimpleRule (Expr: string)

fun Expression :: "SimpleRule \<Rightarrow> string" where
  "Expression s = Expr s"

text \<open>
  \<open>Rules\<close> is a Go map. A \<^verbatim>\<open>range\<close> over it visits every entry once, in an order the
  language leaves open: the list holds the entries in the order of the visit, and every
  statement about a rule set is made for every such list. \<open>OutputType\<close> and
  \<open>ResultType\<close> are interface values, \<open>None\<close> when nil.
\<close>

record RuleSet =
  ID :: string
  Rules :: "(string \<times> SimpleRule) list"
  Schema :: Schema
  OutputType :: "Type option"

record RuleSetResult =
  RuleSetID :: string
  RuleID :: string
  Pass :: bool
  Float64Value :: float64
  Int64Value :: "64 word"
  StringValue :: string
  ResultType :: "Type option"

text \<open>The zero value \<^verbatim>\<open>Result{}\<close>.\<close>

definition zeroResult :: RuleSetResult where
  "zeroResult = \<lparr>RuleSetID = [], RuleID = [], Pass = False, Float64Value = 0,
                  Int64Value = 0, StringValue = [], ResultType = None\<rparr>"

text \<open>
  The \<^verbatim>\<open>Engine\<close> interface, as far as these functions call it. An implementation has a
  state of its own (\<open>'s\<close>) and may write the data map it is handed, so both are passed
  on from call to call. \<open>EvaluateRule\<close> returns \<^verbatim>\<open>(*Result, error)\<close>: \<open>Inl err\<close> for a
  non-nil error, \<open>Inr None\<close> for a nil pointer with a nil error.
\<close>

record ('s, 'err) Engine =
  RuleSet :: "'s \<Rightarrow> string \<Rightarrow> RuleSet \<times> bool"
  EvaluateRule :: "'s \<Rightarrow> Data \<Rightarrow> string \<Rightarrow> string
                     \<Rightarrow> ('err + RuleSetResult option) \<times> 's \<times> Data"

datatype 'err RulesFailure =
    RulesetNotFound RuleSet
  | ErrorEvaluatingRule 'err
  | NilResultPanic

text \<open>
  \<^verbatim>\<open>EvaluateAll\<close> returns the results collected so far together with an error or nil;
  \<open>evaluateAllLoop\<close> is its loop over the rule ids still to visit. (When the
  dereference of a nil result panics nothing is returned: the model then holds the
  list the loop had reached.)
\<close>

fun evaluateAllLoop ::
    "('s, 'err) Engine \<Rightarrow> 's \<Rightarrow> Data \<Rightarrow> string \<Rightarrow> (string \<times> SimpleRule) list
      \<Rightarrow> RuleSetResult list
      \<Rightarrow> (RuleSetResult list \<times> 'err RulesFailure option) \<times> 's \<times> Data" where
  "evaluateAllLoop e st data ruleSetID [] results = ((results, None), st, data)"
| "evaluateAllLoop e st data ruleSetID ((ruleID, r) # rest) results =
     (case EvaluateRule e st data ruleSetID ruleID of
        (Inl err, st', data') \<Rightarrow> ((results, Some (ErrorEvaluatingRule err)), st', data')
      | (Inr None, st', data') \<Rightarrow> ((results, Some NilResultPanic), st', data')
      | (Inr (Some result), st', data') \<Rightarrow>
          evaluateAllLoop e st' data' ruleSetID rest (results @ [result]))"

definition EvaluateAll ::
    "('s, 'err) Engine \<Rightarrow> 's \<Rightarrow> Data \<Rightarrow> string
      \<Rightarrow> (RuleSetResult list \<times> 'err RulesFailure option) \<times> 's \<times> Data" where
  "EvaluateAll e st data ruleSetID =
     (case RuleSet e st ruleSetID of
        (ruleSet, found) \<Rightarrow>
          if \<not> found then (([], Some (RulesetNotFound ruleSet)), st, data)
          else evaluateAllLoop e st data ruleSetID (Rules ruleSet) [])"

text \<open>The loop of \<^verbatim>\<open>EvaluateUntilTrue\<close> over the rule ids still to visit.\<close>

fun untilTrueLoop ::
    "('s, 'err) Engine \<Rightarrow> 's \<Rightarrow> Data \<Rightarrow> string \<Rightarrow> (string \<times> SimpleRule) list
      \<Rightarrow> ('err RulesFailure + RuleSetResult) \<times> 's \<times> Data" where
  "untilTrueLoop e st data ruleSetID [] = (Inr zeroResult, st, data)"
| "untilTrueLoop e st data ruleSetID ((ruleID, r) # rest) =
     (case EvaluateRule e st data ruleSetID ruleID of
        (Inl err, st', data') \<Rightarrow> (Inl (ErrorEvaluatingRule err), st', data')
      | (Inr None, st', data') \<Rightarrow> (Inl NilResultPanic, st', data')
      | (Inr (Some result), st', data') \<Rightarrow>
          if Pass result then (Inr result, st', data')
          else untilTrueLoop e st' data' ruleSetID rest)"

definition EvaluateUntilTrue ::
    "('s, 'err) Engine \<Rightarrow> 's \<Rightarrow> Data \<Rightarrow> string
      \<Rightarrow> ('err RulesFailure + RuleSetResult) \<times> 's \<times> Data" where
  "EvaluateUntilTrue e st data ruleSetID =
     (case RuleSet e st ruleSetID of
        (ruleSet, found) \<Rightarrow>
          if \<not> found then (Inl (RulesetNotFound ruleSet), st, data)
          else untilTrueLoop e st data ruleSetID (Rules ruleSet))"

section \<open>Errors of the engine\<close>

text \<open>
  One constructor for each error the engine builds with \<^verbatim>\<open>fmt.Errorf\<close>, carrying the
  arguments of the format string; \<open>BackendError\<close> is an error value handed over by the
  expression backend. A nil pointer dereference is not an error value but a run-time
  panic: it is the second kind of \<open>failure\<close>.
\<close>

datatype error =
    BackendError string
  | RequiredRuleID string
  | RuleNotFound
  | EvaluatingRule string error
  | NotFloat64 GoValue
  | ParsingRule string error
  | CheckingRule string error
  | GeneratingProgram string error
  | NoValidSchema string
  | CompilingRule string error
  | AddingRule string error
  | SettingMapKey Type error
  | SettingMapValue Type error
  | SettingListValue Type error
  | CastingToProto string
  | RegisteringProto string error

datatype failure = Failed error | NilPointerPanic

section \<open>The expression backend\<close>

text \<open>
  A compiled \<^verbatim>\<open>cel.Program\<close> is the external collaborator. Of it the engine uses only
  \<^verbatim>\<open>Eval(data)\<close> followed by \<^verbatim>\<open>Value()\<close>: an error of the backend, or the raw Go value of
  the result.
\<close>

type_synonym Program = "Data \<Rightarrow> error + GoValue"

text \<open>The declaration types and identifier declarations of \<^verbatim>\<open>checker/decls\<close>.\<close>

datatype CelType =
    DeclString
  | DeclInt
  | DeclDouble
  | DeclBool
  | DeclDuration
  | DeclTimestamp
  | DeclAny
  | NewMapType CelType CelType
  | NewListType CelType
  | NewObjectType string

datatype Decl = NewIdent string CelType

text \<open>
  What the engine calls of the backend, taken as a parameter: the construction of an
  environment from declarations, the three stages of a compilation (each fails with the
  error of its issues), and for a message type the cast of its descriptor to a
  \<^verbatim>\<open>protoiface.MessageV1\<close> and its registration.
\<close>

record ('env, 'ast) Backend =
  NewEnv :: "Decl list \<Rightarrow> error + 'env"
  Parse :: "'env \<Rightarrow> string \<Rightarrow> error + 'ast"
  Check :: "'env \<Rightarrow> 'ast \<Rightarrow> error + 'ast"
  Program :: "'env \<Rightarrow> 'ast \<Rightarrow> error + Program"
  IsMessageV1 :: "GoValue \<Rightarrow> bool"
  RegisterMessage :: "GoValue \<Rightarrow> error option"

section \<open>Evaluation options\<close>

text \<open>
  Modelled from the spec: the struct \<^verbatim>\<open>rules.EvalOptions\<close>, \<^verbatim>\<open>rules.Option\<close> and
  \<^verbatim>\<open>rules.ApplyOptions\<close> are not among the sources. An option overrides one field of the
  inherited options; the overrides of a rule are applied in order, each on the outcome
  of the one before.
\<close>

record EvalOptions =
  MaxDepth :: int
  ReturnPass :: bool
  ReturnFail :: bool
  StopIfParentNegative :: bool
  StopFirstPositiveChild :: bool
  StopFirstNegativeChild :: bool

datatype Option =
    SetMaxDepth int
  | SetReturnPass bool
  | SetReturnFail bool
  | SetStopIfParentNegative bool
  | SetStopFirstPositiveChild bool
  | SetStopFirstNegativeChild bool

fun applyOption :: "EvalOptions \<Rightarrow> Option \<Rightarrow> EvalOptions" where
  "applyOption opt (SetMaxDepth d) = opt\<lparr>MaxDepth := d\<rparr>"
| "applyOption opt (SetReturnPass b) = opt\<lparr>ReturnPass := b\<rparr>"
| "applyOption opt (SetReturnFail b) = opt\<lparr>ReturnFail := b\<rparr>"
| "applyOption opt (SetStopIfParentNegative b) = opt\<lparr>StopIfParentNegative := b\<rparr>"
| "applyOption opt (SetStopFirstPositiveChild b) = opt\<lparr>StopFirstPositiveChild := b\<rparr>"
| "applyOption opt (SetStopFirstNegativeChild b) = opt\<lparr>StopFirstNegativeChild := b\<rparr>"

definition ApplyOptions :: "EvalOptions \<Rightarrow> Option list \<Rightarrow> EvalOptions" where
  "ApplyOptions opt opts = foldl applyOption opt opts"

section \<open>Rules, results and the engine\<close>

text \<open>
  Modelled from the spec: the rule tree and the result tree of the engine (the structs
  \<^verbatim>\<open>rules.Rule\<close> and \<^verbatim>\<open>rules.Result\<close> the engine works on are not those of \<^verbatim>\<open>rules.go\<close>),
  with the fields the engine reads and writes. \<open>Self\<close>, \<open>Meta\<close>, \<open>Action\<close> and \<open>Value\<close>
  are \<^verbatim>\<open>interface{}\<close> values (\<open>GNil\<close> when unset); the depth is a Go \<^verbatim>\<open>int\<close>, which a
  tree of rules cannot overflow, so it is an unbounded integer here.
\<close>

datatype Rule = Rule
  (ID: string)
  (Expr: string)
  (Schema: Schema)
  (Self: GoValue)
  (Meta: GoValue)
  (Action: GoValue)
  (Opts: "Option list")
  (Rules: "Rule list")

datatype Result = Result
  (RuleID: string)
  (Meta: GoValue)
  (Action: GoValue)
  (Pass: bool)
  (Value: GoValue)
  (Depth: int)
  (Results: "string \<rightharpoonup> Result")

text \<open>
  \<^verbatim>\<open>CELEngine\<close>. The only writer of \<open>programs\<close> stores the program of a successful
  compilation, so an entry is never a nil program and \<^verbatim>\<open>program != nil && found\<close> is
  \<^verbatim>\<open>found\<close>.
\<close>

record CELEngine =
  rules :: "string \<rightharpoonup> Rule"
  programs :: "string \<rightharpoonup> Program"

definition NewEngine :: CELEngine where
  "NewEngine = \<lparr>rules = Map.empty, programs = Map.empty\<rparr>"

section \<open>The tree evaluator\<close>

text \<open>
  Modelled from the spec: the constant \<^verbatim>\<open>rules.SelfKey\<close> is not among the sources; it
  is the one reserved key of the data map under which the self value is passed.
\<close>

definition SelfKey :: string where
  "SelfKey = ''self''"

text \<open>\<^verbatim>\<open>addSelf\<close> writes the caller's map in place: the model returns the map it leaves.\<close>

definition addSelf :: "Data \<Rightarrow> GoValue \<Rightarrow> Data" where
  "addSelf data self =
     (if self \<noteq> GNil then data(SelfKey \<mapsto> self) else data(SelfKey := None))"

text \<open>The type assertion \<^verbatim>\<open>rawValue.Value().(bool)\<close> and the value \<open>Pass\<close> gets.\<close>

fun passOf :: "GoValue \<Rightarrow> bool" where
  "passOf (GBool v) = v"
| "passOf _ = False"

text \<open>
  A stop condition \<^verbatim>\<open>flag && res.Pass == want\<close> on the pointer \<open>res\<close> a child
  evaluation returned: \<^verbatim>\<open>&&\<close> reads \<^verbatim>\<open>res.Pass\<close> only when the flag is set, and reading it
  through a nil pointer panics.
\<close>

fun stopCondition :: "bool \<Rightarrow> Result option \<Rightarrow> bool \<Rightarrow> failure + bool" where
  "stopCondition False res want = Inr False"
| "stopCondition True None want = Inl NilPointerPanic"
| "stopCondition True (Some r) want = Inr (Pass r = want)"

text \<open>\<^verbatim>\<open>pr.Results[id] = r\<close>.\<close>

fun setResult :: "Result \<Rightarrow> string \<Rightarrow> Result \<Rightarrow> Result" where
  "setResult (Result rid m a p v d rs) k r = Result rid m a p v d (rs(k \<mapsto> r))"

text \<open>
  \<^verbatim>\<open>evaluate\<close> returns \<^verbatim>\<open>(*Result, error)\<close>: \<open>Inr None\<close> is \<^verbatim>\<open>(nil, nil)\<close>, \<open>Inr (Some r)\<close> is
  \<^verbatim>\<open>(&r, nil)\<close>, \<open>Inl (Failed err)\<close> is \<^verbatim>\<open>(nil, err)\<close>. The data map is shared by every
  evaluation of the walk and written by \<open>addSelf\<close>, so it is threaded through and
  returned. \<open>evalChildren\<close> is the loop over \<^verbatim>\<open>rule.Rules\<close>, with the parent's result
  \<open>pr\<close> built so far.
\<close>

function evaluate ::
    "(string \<rightharpoonup> Program) \<Rightarrow> Data \<Rightarrow> Rule \<Rightarrow> int \<Rightarrow> EvalOptions
      \<Rightarrow> (failure + Result option) \<times> Data"
  and evalChildren ::
    "(string \<rightharpoonup> Program) \<Rightarrow> Data \<Rightarrow> Rule list \<Rightarrow> int \<Rightarrow> EvalOptions \<Rightarrow> Result
      \<Rightarrow> (failure + Result option) \<times> Data"
where
  "evaluate progs data rule n opt =
     (if n > MaxDepth opt then (Inr None, data)
      else
        let opt' = ApplyOptions opt (Opts rule) in
        case progs (ID rule) of
          Some program \<Rightarrow>
            (let data' = addSelf data (Self rule) in
             case program data' of
               Inl err \<Rightarrow> (Inl (Failed (EvaluatingRule (ID rule) err)), data')
             | Inr rawValue \<Rightarrow>
                 (let pr = Result (ID rule) (Rule.Meta rule) (Rule.Action rule)
                             (passOf rawValue) rawValue n Map.empty in
                  if StopIfParentNegative opt' \<and> Pass pr = False then (Inr (Some pr), data')
                  else evalChildren progs data' (Rules rule) n opt' pr))
        | None \<Rightarrow>
            (let pr = Result (ID rule) (Rule.Meta rule) (Rule.Action rule) True (GBool True) n Map.empty in
             if StopIfParentNegative opt' \<and> Pass pr = False then (Inr (Some pr), data)
             else evalChildren progs data (Rules rule) n opt' pr))"
| "evalChildren progs data [] n opt pr = (Inr (Some pr), data)"
| "evalChildren progs data (c # cs) n opt pr =
     (case evaluate progs data c (n + 1) opt of
        (Inl err, data') \<Rightarrow> (Inl err, data')
      | (Inr res, data') \<Rightarrow>
          (let pr' = (case res of
                        None \<Rightarrow> pr
                      | Some r \<Rightarrow>
                          if (\<not> Pass r \<and> ReturnFail opt) \<or> (Pass r \<and> ReturnPass opt)
                          then setResult pr (ID c) r
                          else pr) in
           case stopCondition (StopFirstPositiveChild opt) res True of
             Inl panic \<Rightarrow> (Inl panic, data')
           | Inr True \<Rightarrow> (Inr (Some pr'), data')
           | Inr False \<Rightarrow>
               (case stopCondition (StopFirstNegativeChild opt) res False of
                  Inl panic \<Rightarrow> (Inl panic, data')
                | Inr True \<Rightarrow> (Inr (Some pr'), data')
                | Inr False \<Rightarrow> evalChildren progs data' cs n opt pr')))"
  by pat_completeness auto
termination
proof (relation "measure (\<lambda>x. case x of
          Inl (progs, data, rule, n, opt) \<Rightarrow> 2 * size rule + 1
        | Inr (progs, data, cs, n, opt, pr) \<Rightarrow> 2 * size_list size cs + 1)")
  show "wf (measure (\<lambda>x. case x of
          Inl (progs, data, rule, n, opt) \<Rightarrow> 2 * size rule + 1
        | Inr (progs, data, cs, n, opt, pr) \<Rightarrow> 2 * size_list size cs + 1))"
    by simp
qed (auto, (case_tac rule, simp)+)

text \<open>
  \<^verbatim>\<open>Evaluate\<close>. The constant \<^verbatim>\<open>rules.DefaultDepth\<close> is not among the sources and is the
  parameter \<open>DefaultDepth\<close>.
\<close>

definition Evaluate ::
    "int \<Rightarrow> CELEngine \<Rightarrow> Data \<Rightarrow> string \<Rightarrow> Option list \<Rightarrow> (failure + Result option) \<times> Data" where
  "Evaluate DefaultDepth e data rid opts =
     (let o1 = ApplyOptions
                 \<lparr>MaxDepth = DefaultDepth, ReturnPass = True, ReturnFail = True,
                  StopIfParentNegative = False, StopFirstPositiveChild = False,
                  StopFirstNegativeChild = False\<rparr> opts in
      case rules e rid of
        None \<Rightarrow> (Inl (Failed RuleNotFound), data)
      | Some rule \<Rightarrow> evaluate (programs e) data rule 0 o1)"

section \<open>Registration\<close>

text \<open>
  \<^verbatim>\<open>strings.Trim(s, cutset)\<close>: \<open>s\<close> without its leading and trailing characters that
  occur in \<open>cutset\<close>. (Go reads both strings as code points; for the one-byte cutset
  the engine passes, that is the same as reading them as bytes.)
\<close>

definition Trim :: "string \<Rightarrow> string \<Rightarrow> string" where
  "Trim s cutset =
     rev (dropWhile (\<lambda>c. c \<in> set cutset) (rev (dropWhile (\<lambda>c. c \<in> set cutset) s)))"

fun celType :: "('env, 'ast) Backend \<Rightarrow> Type \<Rightarrow> error + CelType" where
  "celType B String = Inr DeclString"
| "celType B IntType = Inr DeclInt"
| "celType B Float = Inr DeclDouble"
| "celType B Bool = Inr DeclBool"
| "celType B Duration = Inr DeclDuration"
| "celType B Timestamp = Inr DeclTimestamp"
| "celType B (Map k v) =
     (case celType B k of
        Inl err \<Rightarrow> Inl (SettingMapKey k err)
      | Inr key \<Rightarrow>
          (case celType B v of
             Inl err \<Rightarrow> Inl (SettingMapValue v err)
           | Inr val \<Rightarrow> Inr (NewMapType key val)))"
| "celType B (List v) =
     (case celType B v of
        Inl err \<Rightarrow> Inl (SettingListValue v err)
      | Inr val \<Rightarrow> Inr (NewListType val))"
| "celType B (Proto name msg) =
     (if \<not> IsMessageV1 B msg then Inl (CastingToProto name)
      else case RegisterMessage B msg of
             Some err \<Rightarrow> Inl (RegisteringProto name err)
           | None \<Rightarrow> Inr (NewObjectType name))"
| "celType B Any = Inr DeclAny"

text \<open>The loop of \<^verbatim>\<open>schemaToDeclarations\<close>, with the declarations collected so far.\<close>

fun declareElements ::
    "('env, 'ast) Backend \<Rightarrow> DataElement list \<Rightarrow> Decl list \<Rightarrow> error + Decl list" where
  "declareElements B [] items = Inr items"
| "declareElements B (d # ds) items =
     (case celType B (Type d) of
        Inl err \<Rightarrow> Inl err
      | Inr typ \<Rightarrow> declareElements B ds (items @ [NewIdent (Name d) typ]))"

definition schemaToDeclarations :: "('env, 'ast) Backend \<Rightarrow> Schema \<Rightarrow> error + Decl list" where
  "schemaToDeclarations B s = declareElements B (Elements s) []"

definition compileRule :: "('env, 'ast) Backend \<Rightarrow> 'env \<Rightarrow> Rule \<Rightarrow> error + Program" where
  "compileRule B env r =
     (case Parse B env (Expr r) of
        Inl err \<Rightarrow> Inl (ParsingRule (ID r) err)
      | Inr p \<Rightarrow>
          (case Check B env p of
             Inl err \<Rightarrow> Inl (CheckingRule (ID r) err)
           | Inr c \<Rightarrow>
               (case Program B env c of
                  Inl err \<Rightarrow> Inl (GeneratingProgram (ID r) err)
                | Inr prg \<Rightarrow> Inr prg)))"

text \<open>
  The first statement of \<^verbatim>\<open>addRuleWithSchema\<close>: the declarations to compile against
  (\<open>None\<close> is the nil \<^verbatim>\<open>decls\<close> left when neither branch runs) and the schema to pass
  on to the children (the zero schema when neither branch runs).
\<close>

definition resolveSchema ::
    "('env, 'ast) Backend \<Rightarrow> Rule \<Rightarrow> Schema \<Rightarrow> error + (Decl list option \<times> Schema)" where
  "resolveSchema B r s =
     (if length (Elements (Schema r)) > 0 then
        (case schemaToDeclarations B (Schema r) of
           Inl err \<Rightarrow> Inl err
         | Inr decls \<Rightarrow> Inr (Some decls, Schema r))
      else if length (Elements s) > 0 then
        (case schemaToDeclarations B s of
           Inl err \<Rightarrow> Inl err
         | Inr decls \<Rightarrow> Inr (Some decls, s))
      else Inr (None, \<lparr>Schema.ID = [], Elements = []\<rparr>))"

text \<open>
  \<^verbatim>\<open>addRuleWithSchema\<close> writes \<^verbatim>\<open>e.programs\<close> as it goes and returns an error or nil: the
  model returns the error, if any, and the engine as the call leaves it.
  \<open>addChildRules\<close> is its loop over \<^verbatim>\<open>r.Rules\<close>.
\<close>

function addRuleWithSchema ::
    "('env, 'ast) Backend \<Rightarrow> CELEngine \<Rightarrow> Rule \<Rightarrow> Schema \<Rightarrow> error option \<times> CELEngine"
  and addChildRules ::
    "('env, 'ast) Backend \<Rightarrow> CELEngine \<Rightarrow> Rule list \<Rightarrow> Schema \<Rightarrow> error option \<times> CELEngine"
where
  "addRuleWithSchema B e r s =
     (case resolveSchema B r s of
        Inl err \<Rightarrow> (Some err, e)
      | Inr (None, schemaToPassOn) \<Rightarrow> (Some (NoValidSchema (ID r)), e)
      | Inr (Some decls, schemaToPassOn) \<Rightarrow>
          (case NewEnv B decls of
             Inl err \<Rightarrow> (Some err, e)
           | Inr env \<Rightarrow>
               if Expr r \<noteq> [] then
                 (case compileRule B env r of
                    Inl err \<Rightarrow> (Some (CompilingRule (ID r) err), e)
                  | Inr prg \<Rightarrow>
                      addChildRules B (e\<lparr>programs := (programs e)(ID r \<mapsto> prg)\<rparr>)
                        (Rules r) schemaToPassOn)
               else addChildRules B e (Rules r) schemaToPassOn))"
| "addChildRules B e [] s = (None, e)"
| "addChildRules B e (c # cs) s =
     (case addRuleWithSchema B e c s of
        (Some err, e') \<Rightarrow> (Some (AddingRule (ID c) err), e')
      | (None, e') \<Rightarrow> addChildRules B e' cs s)"
  by pat_completeness auto
termination
proof (relation "measure (\<lambda>x. case x of
          Inl (B, e, r, s) \<Rightarrow> 2 * size r + 1
        | Inr (B, e, cs, s) \<Rightarrow> 2 * size_list size cs + 1)")
  show "wf (measure (\<lambda>x. case x of
          Inl (B, e, r, s) \<Rightarrow> 2 * size r + 1
        | Inr (B, e, cs, s) \<Rightarrow> 2 * size_list size cs + 1))"
    by simp
qed (auto, (case_tac r, simp)+)

text \<open>\<^verbatim>\<open>AddRule\<close>, over the rules of the call in order.\<close>

fun AddRule ::
    "('env, 'ast) Backend \<Rightarrow> CELEngine \<Rightarrow> Rule list \<Rightarrow> error option \<times> CELEngine" where
  "AddRule B e [] = (None, e)"
| "AddRule B e (r # rs) =
     (if length (Trim (ID r) '' '') = 0 then (Some (RequiredRuleID (Expr r)), e)
      else case addRuleWithSchema B e r (Schema r) of
             (Some err, e') \<Rightarrow> (Some err, e')
           | (None, e') \<Rightarrow> AddRule B (e'\<lparr>rules := (rules e')(ID r \<mapsto> r)\<rparr>) rs)"

definition RemoveRule :: "CELEngine \<Rightarrow> string \<Rightarrow> CELEngine" where
  "RemoveRule e rid = e\<lparr>rules := (rules e)(rid := None), programs := (programs e)(rid := None)\<rparr>"


section \<open>Calculate\<close>

definition evaluateProgram :: "Data \<Rightarrow> Program \<Rightarrow> error + GoValue" where
  "evaluateProgram data prg =
     (case prg data of Inl err \<Rightarrow> Inl err | Inr rawValue \<Rightarrow> Inr rawValue)"

text \<open>The type assertion \<^verbatim>\<open>result.(float64)\<close>.\<close>

fun asFloat64 :: "GoValue \<Rightarrow> float64 option" where
  "asFloat64 (GFloat64 val) = Some val"
| "asFloat64 _ = None"

text \<open>
  The second half of \<^verbatim>\<open>Calculate\<close>, from the call of \<^verbatim>\<open>evaluateProgram\<close> on; \<open>None\<close> is
  a nil program, whose \<^verbatim>\<open>Eval\<close> panics.
\<close>

definition calculateWith :: "Data \<Rightarrow> Program option \<Rightarrow> failure + float64" where
  "calculateWith data prg =
     (case prg of
        None \<Rightarrow> Inl NilPointerPanic
      | Some p \<Rightarrow>
          (case evaluateProgram data p of
             Inl err \<Rightarrow> Inl (Failed err)
           | Inr result \<Rightarrow>
               (case asFloat64 result of
                  None \<Rightarrow> Inl (Failed (NotFloat64 result))
                | Some val \<Rightarrow> Inr val)))"

text \<open>
  \<^verbatim>\<open>Calculate\<close> may register the expression as a rule, so it returns the engine with
  its outcome.
\<close>

definition Calculate ::
    "('env, 'ast) Backend \<Rightarrow> CELEngine \<Rightarrow> Data \<Rightarrow> string \<Rightarrow> Schema
      \<Rightarrow> (failure + float64) \<times> CELEngine" where
  "Calculate B e data expr schema =
     (case programs e expr of
        Some prg \<Rightarrow> (calculateWith data (Some prg), e)
      | None \<Rightarrow>
          (let r = Rule expr expr schema GNil GNil GNil [] [] in
           case AddRule B e [r] of
             (Some err, e') \<Rightarrow> (Inl (Failed err), e')
           | (None, e') \<Rightarrow> (calculateWith data (programs e' expr), e')))"

section \<open>Example inputs\<close>

text \<open>
  Concrete inputs on which the statements below are run: the options \<^verbatim>\<open>Evaluate\<close> starts
  from (with a depth limit of 10), the schema \<^verbatim>\<open>{x: Int}\<close>, a rule without self value,
  options and children, and programs standing for what the backend makes of \<^verbatim>\<open>x > 5\<close>
  and of an expression whose evaluation fails.
\<close>

definition exampleOptions :: EvalOptions where
  "exampleOptions = \<lparr>MaxDepth = 10, ReturnPass = True, ReturnFail = True,
     StopIfParentNegative = False, StopFirstPositiveChild = False,
     StopFirstNegativeChild = False\<rparr>"

definition xSchema :: Schema where
  "xSchema = \<lparr>Schema.ID = ''s'',
     Elements = [\<lparr>DataElement.ID = ''e'', Name = ''x'', Key = ''x'', Type = IntType,
                  Description = []\<rparr>]\<rparr>"

definition leaf :: "string \<Rightarrow> string \<Rightarrow> Rule" where
  "leaf rid expr = Rule rid expr xSchema GNil GNil GNil [] []"

definition group :: "string \<Rightarrow> Rule list \<Rightarrow> Rule" where
  "group rid children = Rule rid [] xSchema GNil GNil GNil [] children"

definition xGreater5 :: Program where
  "xGreater5 data =
     (case data ''x'' of
        Some (GInt64 x) \<Rightarrow> Inr (GBool (5 < sint x))
      | _ \<Rightarrow> Inl (BackendError ''no such attribute: x''))"

definition divisionByZero :: Program where
  "divisionByZero data = Inl (BackendError ''division by zero'')"

definition noData :: Data where
  "noData = Map.empty"

definition noPrograms :: "string \<rightharpoonup> Program" where
  "noPrograms = Map.empty"

text \<open>
  A rule that sets \<open>StopIfParentNegative\<close> for its subtree and has a child whose program
  fails; a rule without self value whose program returns what it finds under the self
  key; and a data map that still holds the self value of an earlier evaluation.
\<close>

definition guarded :: Rule where
  "guarded = Rule ''r1'' ''x > 5'' xSchema GNil GNil GNil [SetStopIfParentNegative True]
               [leaf ''c'' ''1 / 0 > 0'']"

definition selfEcho :: Program where
  "selfEcho data = (case data SelfKey of Some v \<Rightarrow> Inr v | None \<Rightarrow> Inr GNil)"

definition unselfed :: Rule where
  "unselfed = Rule ''r2'' ''self'' xSchema GNil GNil GNil [] []"

definition staleData :: Data where
  "staleData = [''x'' \<mapsto> GInt64 3, SelfKey \<mapsto> GString ''stale'']"

text \<open>
  A backend that knows three expressions: \<^verbatim>\<open>x > 5\<close> and \<^verbatim>\<open>a+b\<close>, which it checks against
  the declarations and compiles to a comparison and to the addition of two integers
  (an integer result, as the expression language has no implicit conversion to a
  double), and the literal \<^verbatim>\<open>2.5\<close>, a double. With it the schema \<^verbatim>\<open>{a: Int, b: Int}\<close>,
  the data \<^verbatim>\<open>{a: 2, b: 3}\<close>, the empty schema, a rule whose id is a tab and a newline, and
  a rule that has no schema of its own.
\<close>

definition aPlusB :: Program where
  "aPlusB data =
     (case (data ''a'', data ''b'') of
        (Some (GInt64 a), Some (GInt64 b)) \<Rightarrow> Inr (GInt64 (a + b))
      | _ \<Rightarrow> Inl (BackendError ''no such overload''))"

definition twoAndAHalf :: Program where
  "twoAndAHalf data = Inr (GFloat64 0x4004000000000000)"

definition exampleBackend :: "(Decl list, string) Backend" where
  "exampleBackend = \<lparr>
     NewEnv = (\<lambda>decls. Inr decls),
     Parse = (\<lambda>env expr.
        if expr = ''x > 5'' \<or> expr = ''a+b'' \<or> expr = ''2.5'' then Inr expr
        else Inl (BackendError ''syntax error'')),
     Check = (\<lambda>env ast.
        if ast = ''x > 5'' \<and> NewIdent ''x'' DeclInt \<notin> set env
        then Inl (BackendError ''undeclared reference to x'')
        else if ast = ''a+b'' \<and>
                (NewIdent ''a'' DeclInt \<notin> set env \<or> NewIdent ''b'' DeclInt \<notin> set env)
        then Inl (BackendError ''undeclared reference to a or b'')
        else Inr ast),
     Program = (\<lambda>env ast.
        if ast = ''x > 5'' then Inr xGreater5
        else if ast = ''a+b'' then Inr aPlusB
        else Inr twoAndAHalf),
     IsMessageV1 = (\<lambda>m. False),
     RegisterMessage = (\<lambda>m. None)\<rparr>"

definition abSchema :: Schema where
  "abSchema = \<lparr>Schema.ID = ''ab'',
     Elements = [\<lparr>DataElement.ID = ''1'', Name = ''a'', Key = ''a'', Type = IntType,
                  Description = []\<rparr>,
                 \<lparr>DataElement.ID = ''2'', Name = ''b'', Key = ''b'', Type = IntType,
                  Description = []\<rparr>]\<rparr>"

definition abData :: Data where
  "abData = [''a'' \<mapsto> GInt64 2, ''b'' \<mapsto> GInt64 3]"





text \<open>
  An implementation of the \<^verbatim>\<open>Engine\<close> interface of \<^verbatim>\<open>rules.go\<close> whose rule set has the
  rules \<^verbatim>\<open>a\<close> (\<^verbatim>\<open>x > 5\<close>) and \<^verbatim>\<open>b\<close> (\<^verbatim>\<open>x > 7\<close>): a rule passes or not by the value of \<^verbatim>\<open>x\<close>
  in the data, and the evaluation is an error when the data has no integer \<^verbatim>\<open>x\<close>. The
  state of the engine counts the evaluations.
\<close>

definition exampleRuleSet :: RuleSet where
  "exampleRuleSet = \<lparr>RuleSet.ID = ''rs'',
     RuleSet.Rules = [(''a'', SimpleRule ''x > 5''), (''b'', SimpleRule ''x > 7'')],
     RuleSet.Schema = xSchema, OutputType = Some Bool\<rparr>"

definition resultOf :: "string \<Rightarrow> string \<Rightarrow> bool \<Rightarrow> RuleSetResult" where
  "resultOf ruleSetID ruleID pass = zeroResult\<lparr>RuleSetID := ruleSetID,
     RuleSetResult.RuleID := ruleID, RuleSetResult.Pass := pass\<rparr>"

definition thresholdEngine :: "(nat, string) Engine" where
  "thresholdEngine = \<lparr>
     RuleSet = (\<lambda>st ruleSetID. (exampleRuleSet, ruleSetID = ''rs'')),
     EvaluateRule = (\<lambda>st data ruleSetID ruleID.
        (case data ''x'' of
           Some (GInt64 x) \<Rightarrow>
             Inr (Some (resultOf ruleSetID ruleID
                          (if ruleID = ''a'' then 5 < sint x else 7 < sint x)))
         | _ \<Rightarrow> Inl ''no such attribute: x'',
         st + 1, data))\<rparr>"

section \<open>The evaluator, step by step\<close>

declare evaluate.simps [simp del]
declare evalChildren.simps(2) [simp del]

lemma setResult_fields:
  "RuleID (setResult pr k r) = RuleID pr"
  "Result.Meta (setResult pr k r) = Result.Meta pr"
  "Result.Action (setResult pr k r) = Result.Action pr"
  "Pass (setResult pr k r) = Pass pr"
  "Value (setResult pr k r) = Value pr"
  "Depth (setResult pr k r) = Depth pr"
  "Results (setResult pr k r) = (Results pr)(k \<mapsto> r)"
  by (cases pr; simp)+

lemma stopCondition_cases:
  "stopCondition flag res want =
     (if \<not> flag then Inr False
      else case res of None \<Rightarrow> Inl NilPointerPanic | Some r \<Rightarrow> Inr (Pass r = want))"
  by (cases flag; cases res; simp)

lemma passOf_iff: "passOf v \<longleftrightarrow> v = GBool True"
  by (cases v) auto

text \<open>One turn of the loop over the children, by what the child's evaluation returned.\<close>

lemma evalChildren_Cons_Some:
  assumes "evaluate progs data c (n + 1) opt = (Inr (Some r), data')"
  shows "evalChildren progs data (c # cs) n opt pr =
     (let pr' = (if (\<not> Pass r \<and> ReturnFail opt) \<or> (Pass r \<and> ReturnPass opt)
                 then setResult pr (ID c) r else pr) in
      if (StopFirstPositiveChild opt \<and> Pass r) \<or> (StopFirstNegativeChild opt \<and> \<not> Pass r)
      then (Inr (Some pr'), data')
      else evalChildren progs data' cs n opt pr')"
  using assms by (simp add: evalChildren.simps(2) stopCondition_cases Let_def)

lemma evalChildren_Cons_None:
  assumes "evaluate progs data c (n + 1) opt = (Inr None, data')"
  shows "evalChildren progs data (c # cs) n opt pr =
     (if StopFirstPositiveChild opt \<or> StopFirstNegativeChild opt
      then (Inl NilPointerPanic, data')
      else evalChildren progs data' cs n opt pr)"
  using assms by (simp add: evalChildren.simps(2) stopCondition_cases Let_def)

lemma evalChildren_Cons_Inl:
  assumes "evaluate progs data c (n + 1) opt = (Inl f, data')"
  shows "evalChildren progs data (c # cs) n opt pr = (Inl f, data')"
  using assms by (simp add: evalChildren.simps(2))

text \<open>
  The loop over the children never returns a nil result, and it leaves every field of
  the parent's result but \<open>Results\<close> as it found it.
\<close>

lemma evalChildren_keeps:
  "case fst (evalChildren progs data cs n opt pr) of
     Inl f \<Rightarrow> True
   | Inr None \<Rightarrow> False
   | Inr (Some r) \<Rightarrow> RuleID r = RuleID pr \<and> Result.Meta r = Result.Meta pr \<and>
        Result.Action r = Result.Action pr \<and> Pass r = Pass pr \<and> Value r = Value pr \<and>
        Depth r = Depth pr"
proof (induction cs arbitrary: data pr)
  case Nil
  show ?case by simp
next
  case (Cons c cs)
  obtain out data' where ev: "evaluate progs data c (n + 1) opt = (out, data')"
    by (cases "evaluate progs data c (n + 1) opt")
  show ?case
  proof (cases out)
    case (Inl f)
    with ev show ?thesis by (simp add: evalChildren_Cons_Inl)
  next
    case (Inr res)
    show ?thesis
    proof (cases res)
      case None
      with ev Inr Cons.IH[where data=data' and pr=pr] show ?thesis
        by (simp add: evalChildren_Cons_None)
    next
      case (Some r)
      with ev Inr Cons.IH[where data=data' and pr=pr]
        Cons.IH[where data=data' and pr="setResult pr (ID c) r"]
      show ?thesis
        by (auto simp: evalChildren_Cons_Some setResult_fields Let_def
            split: sum.splits option.splits)
    qed
  qed
qed

text \<open>The rule's own evaluation, by its three outcomes.\<close>

lemma evaluate_program:
  assumes "\<not> n > MaxDepth opt" and "progs (ID rule) = Some program"
    and "program (addSelf data (Self rule)) = Inr rawValue"
  shows "evaluate progs data rule n opt =
     (if StopIfParentNegative (ApplyOptions opt (Opts rule)) \<and> rawValue \<noteq> GBool True
      then (Inr (Some (Result (ID rule) (Rule.Meta rule) (Rule.Action rule) False rawValue n
                        Map.empty)), addSelf data (Self rule))
      else evalChildren progs (addSelf data (Self rule)) (Rules rule) n
             (ApplyOptions opt (Opts rule))
             (Result (ID rule) (Rule.Meta rule) (Rule.Action rule) (rawValue = GBool True)
                rawValue n Map.empty))"
  using assms by (simp add: evaluate.simps Let_def passOf_iff)

lemma evaluate_program_error:
  assumes "\<not> n > MaxDepth opt" and "progs (ID rule) = Some program"
    and "program (addSelf data (Self rule)) = Inl err"
  shows "evaluate progs data rule n opt =
     (Inl (Failed (EvaluatingRule (ID rule) err)), addSelf data (Self rule))"
  using assms by (simp add: evaluate.simps Let_def)

lemma evaluate_group:
  assumes "\<not> n > MaxDepth opt" and "progs (ID rule) = None"
  shows "evaluate progs data rule n opt =
     evalChildren progs data (Rules rule) n (ApplyOptions opt (Opts rule))
       (Result (ID rule) (Rule.Meta rule) (Rule.Action rule) True (GBool True) n Map.empty)"
  using assms by (simp add: evaluate.simps Let_def)

text \<open>A nil result comes from the depth guard only.\<close>

lemma evaluate_nil:
  assumes "fst (evaluate progs data rule n opt) = Inr None"
  shows "n > MaxDepth opt"
proof (rule ccontr)
  assume d: "\<not> n > MaxDepth opt"
  show False
  proof (cases "progs (ID rule)")
    case None
    have "evaluate progs data rule n opt =
       evalChildren progs data (Rules rule) n (ApplyOptions opt (Opts rule))
         (Result (ID rule) (Rule.Meta rule) (Rule.Action rule) True (GBool True) n Map.empty)"
      using d None by (rule evaluate_group)
    with assms evalChildren_keeps[where progs=progs and data=data and cs="Rules rule" and n=n
        and opt="ApplyOptions opt (Opts rule)"
        and pr="Result (ID rule) (Rule.Meta rule) (Rule.Action rule) True (GBool True) n
                  Map.empty"]
    show False by simp
  next
    case (Some program)
    show False
    proof (cases "program (addSelf data (Self rule))")
      case (Inl err)
      have "evaluate progs data rule n opt =
         (Inl (Failed (EvaluatingRule (ID rule) err)), addSelf data (Self rule))"
        using d Some Inl by (rule evaluate_program_error)
      with assms show False by simp
    next
      case (Inr v)
      have "evaluate progs data rule n opt =
         (if StopIfParentNegative (ApplyOptions opt (Opts rule)) \<and> v \<noteq> GBool True
          then (Inr (Some (Result (ID rule) (Rule.Meta rule) (Rule.Action rule) False v n
                            Map.empty)), addSelf data (Self rule))
          else evalChildren progs (addSelf data (Self rule)) (Rules rule) n
                 (ApplyOptions opt (Opts rule))
                 (Result (ID rule) (Rule.Meta rule) (Rule.Action rule) (v = GBool True)
                    v n Map.empty))"
        using d Some Inr by (rule evaluate_program)
      with assms evalChildren_keeps[where progs=progs and data="addSelf data (Self rule)"
          and cs="Rules rule" and n=n and opt="ApplyOptions opt (Opts rule)"
          and pr="Result (ID rule) (Rule.Meta rule) (Rule.Action rule) (v = GBool True)
                    v n Map.empty"]
      show False by (simp split: if_splits)
    qed
  qed
qed

text \<open>
  Outside the reach of the unguarded stop conditions (no stop option set, or the
  children within the depth limit) the loop over the children ends in a result that
  has the \<open>Value\<close> and \<open>Pass\<close> of the parent's, or in the failure of one of the children.
\<close>

lemma evalChildren_outcome:
  assumes "(\<not> StopFirstPositiveChild opt \<and> \<not> StopFirstNegativeChild opt) \<or>
           \<not> n + 1 > MaxDepth opt"
  shows "(\<exists>r. fst (evalChildren progs data cs n opt pr) = Inr (Some r) \<and>
              Value r = Value pr \<and> Pass r = Pass pr) \<or>
         (\<exists>c \<in> set cs. \<exists>d d' f. evaluate progs d c (n + 1) opt = (Inl f, d') \<and>
              fst (evalChildren progs data cs n opt pr) = Inl f)"
proof (induction cs arbitrary: data pr)
  case Nil
  show ?case by simp
next
  case (Cons c cs)
  obtain out data' where ev: "evaluate progs data c (n + 1) opt = (out, data')"
    by (cases "evaluate progs data c (n + 1) opt")
  show ?case
  proof (cases out)
    case (Inl f)
    with ev have "evalChildren progs data (c # cs) n opt pr = (Inl f, data')"
      by (simp add: evalChildren_Cons_Inl)
    with ev Inl show ?thesis by auto
  next
    case (Inr res)
    show ?thesis
    proof (cases res)
      case None
      with ev Inr have "n + 1 > MaxDepth opt"
        using evaluate_nil[of progs data c "n + 1" opt] by simp
      with assms have ns: "\<not> StopFirstPositiveChild opt \<and> \<not> StopFirstNegativeChild opt"
        by blast
      from ev Inr None ns have
        "evalChildren progs data (c # cs) n opt pr = evalChildren progs data' cs n opt pr"
        by (simp add: evalChildren_Cons_None)
      with Cons.IH[where data=data' and pr=pr] show ?thesis by auto
    next
      case (Some r)
      let ?pr' = "if (\<not> Pass r \<and> ReturnFail opt) \<or> (Pass r \<and> ReturnPass opt)
                  then setResult pr (ID c) r else pr"
      have k: "Value ?pr' = Value pr \<and> Pass ?pr' = Pass pr"
        by (simp add: setResult_fields)
      from ev Inr Some have e: "evalChildren progs data (c # cs) n opt pr =
          (if (StopFirstPositiveChild opt \<and> Pass r) \<or> (StopFirstNegativeChild opt \<and> \<not> Pass r)
           then (Inr (Some ?pr'), data')
           else evalChildren progs data' cs n opt ?pr')"
        by (simp add: evalChildren_Cons_Some Let_def)
      show ?thesis
      proof (cases "(StopFirstPositiveChild opt \<and> Pass r) \<or>
                    (StopFirstNegativeChild opt \<and> \<not> Pass r)")
        case True
        with e k show ?thesis by simp
      next
        case False
        with e have "evalChildren progs data (c # cs) n opt pr =
            evalChildren progs data' cs n opt ?pr'"
          by simp
        with Cons.IH[where data=data' and pr="?pr'"] k show ?thesis by auto
      qed
    qed
  qed
qed

section \<open>Claims about the tree evaluator\<close>

text \<open>
  Claim C1. With \<open>StopFirstPositiveChild\<close> or \<open>StopFirstNegativeChild\<close> set, a child
  whose evaluation returns a nil result (its depth exceeds \<open>MaxDepth\<close>) should be
  skipped without fault. The evaluator does not do that: the insertion into \<open>Results\<close>
  is guarded by \<^verbatim>\<open>res != nil\<close>, the two stop conditions are not, and they read
  \<^verbatim>\<open>res.Pass\<close> through the nil pointer. On a parent \<^verbatim>\<open>p\<close> with one child \<^verbatim>\<open>c\<close>, evaluated
  at depth 0 with \<open>MaxDepth = 0\<close> and either stop option set, the evaluation panics.
\<close>

theorem C1_nil_child_panics:
  "evaluate noPrograms noData (group ''p'' [leaf ''c'' []]) 0
     (exampleOptions\<lparr>MaxDepth := 0, StopFirstPositiveChild := True\<rparr>)
     = (Inl NilPointerPanic, noData) \<and>
   evaluate noPrograms noData (group ''p'' [leaf ''c'' []]) 0
     (exampleOptions\<lparr>MaxDepth := 0, StopFirstNegativeChild := True\<rparr>)
     = (Inl NilPointerPanic, noData)"
  by (simp add: evaluate.simps evalChildren.simps exampleOptions_def leaf_def group_def
      noPrograms_def ApplyOptions_def Let_def)

text \<open>
  Claim C2. For a rule with a stored program, evaluated within the depth limit, whose
  program succeeds on the data (after the self injection) with the raw value
  \<open>rawValue\<close>: whenever the evaluation is not aborted by a failure below the rule, it
  returns a result (never nil) whose \<open>Value\<close> is \<open>rawValue\<close> and whose \<open>Pass\<close> is true
  exactly when \<open>rawValue\<close> is the boolean true; and for a rule without children it does
  return that result.
\<close>

theorem C2_program_value_and_pass:
  assumes "\<not> n > MaxDepth opt" and "progs (ID rule) = Some program"
    and "program (addSelf data (Self rule)) = Inr rawValue"
  shows "(case fst (evaluate progs data rule n opt) of
            Inl f \<Rightarrow> True
          | Inr None \<Rightarrow> False
          | Inr (Some r) \<Rightarrow> Value r = rawValue \<and> (Pass r \<longleftrightarrow> rawValue = GBool True)) \<and>
         (Rules rule = [] \<longrightarrow>
            fst (evaluate progs data rule n opt) =
              Inr (Some (Result (ID rule) (Rule.Meta rule) (Rule.Action rule)
                           (rawValue = GBool True) rawValue n Map.empty)))"
proof -
  let ?d = "addSelf data (Self rule)"
  let ?o = "ApplyOptions opt (Opts rule)"
  let ?pr = "Result (ID rule) (Rule.Meta rule) (Rule.Action rule) (rawValue = GBool True)
               rawValue n Map.empty"
  have keeps: "case fst (evalChildren progs ?d (Rules rule) n ?o ?pr) of
      Inl f \<Rightarrow> True | Inr None \<Rightarrow> False
    | Inr (Some r) \<Rightarrow> Value r = rawValue \<and> (Pass r \<longleftrightarrow> rawValue = GBool True)"
    using evalChildren_keeps[where progs=progs and data="?d" and cs="Rules rule" and n=n
        and opt="?o" and pr="?pr"]
    by (auto split: sum.splits option.splits)
  have ev: "evaluate progs data rule n opt =
     (if StopIfParentNegative ?o \<and> rawValue \<noteq> GBool True
      then (Inr (Some (Result (ID rule) (Rule.Meta rule) (Rule.Action rule) False rawValue n
                        Map.empty)), ?d)
      else evalChildren progs ?d (Rules rule) n ?o ?pr)"
    using assms by (rule evaluate_program)
  show ?thesis
    using keeps by (auto simp: ev)
qed

text \<open>
  The scenario of the specification: rule \<^verbatim>\<open>r1\<close> with \<^verbatim>\<open>x > 5\<close> on the data \<^verbatim>\<open>{x: 10}\<close>
  passes with the value true.
\<close>

theorem C2_witness:
  "\<not> 0 > MaxDepth exampleOptions \<and>
   [''r1'' \<mapsto> xGreater5] (ID (leaf ''r1'' ''x > 5'')) = Some xGreater5 \<and>
   xGreater5 (addSelf [''x'' \<mapsto> GInt64 10] (Self (leaf ''r1'' ''x > 5''))) = Inr (GBool True) \<and>
   fst (evaluate [''r1'' \<mapsto> xGreater5] [''x'' \<mapsto> GInt64 10] (leaf ''r1'' ''x > 5'') 0
          exampleOptions)
     = Inr (Some (Result ''r1'' GNil GNil True (GBool True) 0 Map.empty))"
proof -
  have h1: "\<not> 0 > MaxDepth exampleOptions"
    by (simp add: exampleOptions_def)
  have h2: "[''r1'' \<mapsto> xGreater5] (ID (leaf ''r1'' ''x > 5'')) = Some xGreater5"
    by (simp add: leaf_def)
  have h3: "xGreater5 (addSelf [''x'' \<mapsto> GInt64 10] (Self (leaf ''r1'' ''x > 5'')))
              = Inr (GBool True)"
    by (simp add: leaf_def addSelf_def xGreater5_def SelfKey_def)
  from C2_program_value_and_pass[where progs="[''r1'' \<mapsto> xGreater5]"
      and rule="leaf ''r1'' ''x > 5''" and program=xGreater5
      and data="[''x'' \<mapsto> GInt64 10]" and rawValue="GBool True"
      and n=0 and opt=exampleOptions, OF h1 h2 h3]
  have "fst (evaluate [''r1'' \<mapsto> xGreater5] [''x'' \<mapsto> GInt64 10] (leaf ''r1'' ''x > 5'') 0
          exampleOptions)
     = Inr (Some (Result ''r1'' GNil GNil True (GBool True) 0 Map.empty))"
    by (simp add: leaf_def)
  with h1 h2 h3 show ?thesis by blast
qed

text \<open>
  Claim C3, as stated, fails. A rule without a stored program does not always yield a
  result: evaluated beyond the depth limit (here at depth 1 with \<open>MaxDepth = 0\<close>) it
  returns a nil result, and when the program of one of its children fails the whole
  evaluation returns that error and no result.
\<close>

theorem C3_counterexample:
  "fst (evaluate noPrograms noData (group ''g'' []) 1 (exampleOptions\<lparr>MaxDepth := 0\<rparr>))
     = Inr None \<and>
   fst (evaluate (noPrograms(''c'' \<mapsto> divisionByZero)) noData
          (group ''g'' [leaf ''c'' ''1 / 0 > 0'']) 0 exampleOptions)
     = Inl (Failed (EvaluatingRule ''c'' (BackendError ''division by zero'')))"
  by (simp add: evaluate.simps evalChildren.simps exampleOptions_def leaf_def group_def
      noPrograms_def divisionByZero_def ApplyOptions_def Let_def)

text \<open>
  Claim C3, amended. For a rule with no stored program, every data map and every
  options: evaluated at a depth beyond \<open>MaxDepth\<close> it returns a nil result, no error
  and the data map untouched. Evaluated within \<open>MaxDepth\<close>, and outside the reach of
  the unguarded stop conditions of claim C1 (neither \<open>StopFirstPositiveChild\<close> nor
  \<open>StopFirstNegativeChild\<close> in the merged options, or the children's depth within the
  merged \<open>MaxDepth\<close>), it returns a result (not nil) whose \<open>Value\<close> is the boolean true
  and whose \<open>Pass\<close> is true, or else the failure in which the evaluation of one of its
  children ended. A rule without children returns exactly its own result, true and
  passing, and leaves the data map as it was.
\<close>

theorem C3_group_defaults_true:
  assumes "progs (ID rule) = None"
  shows "(n > MaxDepth opt \<longrightarrow> evaluate progs data rule n opt = (Inr None, data)) \<and>
         (\<not> n > MaxDepth opt \<and> Rules rule = [] \<longrightarrow>
            evaluate progs data rule n opt =
              (Inr (Some (Result (ID rule) (Rule.Meta rule) (Rule.Action rule) True
                            (GBool True) n Map.empty)), data)) \<and>
         (\<not> n > MaxDepth opt \<and>
          ((\<not> StopFirstPositiveChild (ApplyOptions opt (Opts rule)) \<and>
            \<not> StopFirstNegativeChild (ApplyOptions opt (Opts rule))) \<or>
           \<not> n + 1 > MaxDepth (ApplyOptions opt (Opts rule))) \<longrightarrow>
            (\<exists>r. fst (evaluate progs data rule n opt) = Inr (Some r) \<and>
                 Value r = GBool True \<and> Pass r) \<or>
            (\<exists>c \<in> set (Rules rule). \<exists>d d' f.
                 evaluate progs d c (n + 1) (ApplyOptions opt (Opts rule)) = (Inl f, d') \<and>
                 fst (evaluate progs data rule n opt) = Inl f))"
proof -
  let ?o = "ApplyOptions opt (Opts rule)"
  let ?pr = "Result (ID rule) (Rule.Meta rule) (Rule.Action rule) True (GBool True) n Map.empty"
  have deep: "n > MaxDepth opt \<longrightarrow> evaluate progs data rule n opt = (Inr None, data)"
    by (simp add: evaluate.simps)
  have ev: "evaluate progs data rule n opt = evalChildren progs data (Rules rule) n ?o ?pr"
    if d: "\<not> n > MaxDepth opt"
    using d assms by (rule evaluate_group)
  have leaf: "\<not> n > MaxDepth opt \<and> Rules rule = [] \<longrightarrow>
      evaluate progs data rule n opt = (Inr (Some ?pr), data)"
    using ev by simp
  have walk: "\<not> n > MaxDepth opt \<and>
          ((\<not> StopFirstPositiveChild ?o \<and> \<not> StopFirstNegativeChild ?o) \<or>
           \<not> n + 1 > MaxDepth ?o) \<longrightarrow>
            (\<exists>r. fst (evaluate progs data rule n opt) = Inr (Some r) \<and>
                 Value r = GBool True \<and> Pass r) \<or>
            (\<exists>c \<in> set (Rules rule). \<exists>d d' f.
                 evaluate progs d c (n + 1) ?o = (Inl f, d') \<and>
                 fst (evaluate progs data rule n opt) = Inl f)"
  proof
    assume a: "\<not> n > MaxDepth opt \<and>
          ((\<not> StopFirstPositiveChild ?o \<and> \<not> StopFirstNegativeChild ?o) \<or>
           \<not> n + 1 > MaxDepth ?o)"
    then have s: "(\<not> StopFirstPositiveChild ?o \<and> \<not> StopFirstNegativeChild ?o) \<or>
           \<not> n + 1 > MaxDepth ?o"
      by blast
    from a have e: "evaluate progs data rule n opt =
        evalChildren progs data (Rules rule) n ?o ?pr"
      using ev by blast
    from evalChildren_outcome[OF s, where progs=progs and data=data and cs="Rules rule"
        and pr="?pr"]
    show "(\<exists>r. fst (evaluate progs data rule n opt) = Inr (Some r) \<and>
                 Value r = GBool True \<and> Pass r) \<or>
            (\<exists>c \<in> set (Rules rule). \<exists>d d' f.
                 evaluate progs d c (n + 1) ?o = (Inl f, d') \<and>
                 fst (evaluate progs data rule n opt) = Inl f)"
      by (simp add: e)
  qed
  from deep leaf walk show ?thesis by blast
qed

theorem C3_witness:
  "[''r1'' \<mapsto> xGreater5] (ID (group ''g'' [leaf ''r1'' ''x > 5''])) = None \<and>
   evaluate [''r1'' \<mapsto> xGreater5] [''x'' \<mapsto> GInt64 3] (group ''g'' [leaf ''r1'' ''x > 5'']) 11
     exampleOptions
     = (Inr None, [''x'' \<mapsto> GInt64 3]) \<and>
   fst (evaluate [''r1'' \<mapsto> xGreater5] [''x'' \<mapsto> GInt64 3]
          (group ''g'' [leaf ''r1'' ''x > 5'']) 0 exampleOptions)
     = Inr (Some (Result ''g'' GNil GNil True (GBool True) 0
                    [''r1'' \<mapsto> Result ''r1'' GNil GNil False (GBool False) 1 Map.empty]))"
proof -
  have h: "[''r1'' \<mapsto> xGreater5] (ID (group ''g'' [leaf ''r1'' ''x > 5''])) = None"
    by (simp add: group_def)
  from C3_group_defaults_true[where progs="[''r1'' \<mapsto> xGreater5]"
      and rule="group ''g'' [leaf ''r1'' ''x > 5'']"
      and data="[''x'' \<mapsto> GInt64 3]" and n=11 and opt=exampleOptions, OF h]
  have a: "evaluate [''r1'' \<mapsto> xGreater5] [''x'' \<mapsto> GInt64 3]
       (group ''g'' [leaf ''r1'' ''x > 5'']) 11 exampleOptions
     = (Inr None, [''x'' \<mapsto> GInt64 3])"
    by (simp add: exampleOptions_def)
  from C3_group_defaults_true[where progs="[''r1'' \<mapsto> xGreater5]"
      and rule="group ''g'' [leaf ''r1'' ''x > 5'']"
      and data="[''x'' \<mapsto> GInt64 3]" and n=0 and opt=exampleOptions, OF h]
  have "(\<exists>r. fst (evaluate [''r1'' \<mapsto> xGreater5] [''x'' \<mapsto> GInt64 3]
                 (group ''g'' [leaf ''r1'' ''x > 5'']) 0 exampleOptions) = Inr (Some r) \<and>
            Value r = GBool True \<and> Pass r) \<or>
         (\<exists>c \<in> set (Rules (group ''g'' [leaf ''r1'' ''x > 5''])). \<exists>d d' f.
            evaluate [''r1'' \<mapsto> xGreater5] d c (0 + 1)
              (ApplyOptions exampleOptions (Opts (group ''g'' [leaf ''r1'' ''x > 5'']))) =
              (Inl f, d') \<and>
            fst (evaluate [''r1'' \<mapsto> xGreater5] [''x'' \<mapsto> GInt64 3]
                   (group ''g'' [leaf ''r1'' ''x > 5'']) 0 exampleOptions) = Inl f)"
    by (simp add: exampleOptions_def group_def ApplyOptions_def)
  moreover
  have "fst (evaluate [''r1'' \<mapsto> xGreater5] [''x'' \<mapsto> GInt64 3]
          (group ''g'' [leaf ''r1'' ''x > 5'']) 0 exampleOptions)
     = Inr (Some (Result ''g'' GNil GNil True (GBool True) 0
                    [''r1'' \<mapsto> Result ''r1'' GNil GNil False (GBool False) 1 Map.empty]))"
    by (simp add: exampleOptions_def group_def leaf_def ApplyOptions_def evaluate.simps
        evalChildren.simps xGreater5_def addSelf_def SelfKey_def Let_def)
  ultimately show ?thesis using h a by blast
qed



text \<open>
  Claim C5. For a rule whose own evaluation yields \<open>Pass = False\<close> (its program returns
  a value other than the boolean true) under merged options with
  \<open>StopIfParentNegative\<close>: the evaluation returns at once the rule's own result with an
  empty \<open>Results\<close> map, and the data map as the self injection left it, whatever the
  children of the rule are.
\<close>

theorem C5_stop_if_parent_negative:
  assumes "\<not> n > MaxDepth opt" and "progs (ID rule) = Some program"
    and "program (addSelf data (Self rule)) = Inr rawValue"
    and "rawValue \<noteq> GBool True"
    and "StopIfParentNegative (ApplyOptions opt (Opts rule))"
  shows "evaluate progs data rule n opt =
           (Inr (Some (Result (ID rule) (Rule.Meta rule) (Rule.Action rule) False rawValue n
                         Map.empty)), addSelf data (Self rule))"
  using assms by (simp add: evaluate.simps Let_def passOf_iff)

theorem C5_witness:
  "\<not> 0 > MaxDepth exampleOptions \<and>
   (noPrograms(''r1'' \<mapsto> xGreater5, ''c'' \<mapsto> divisionByZero)) (ID guarded) = Some xGreater5 \<and>
   xGreater5 (addSelf [''x'' \<mapsto> GInt64 3] (Self guarded)) = Inr (GBool False) \<and>
   GBool False \<noteq> GBool True \<and>
   StopIfParentNegative (ApplyOptions exampleOptions (Opts guarded)) \<and>
   fst (evaluate (noPrograms(''r1'' \<mapsto> xGreater5, ''c'' \<mapsto> divisionByZero))
          [''x'' \<mapsto> GInt64 3] guarded 0 exampleOptions)
     = Inr (Some (Result ''r1'' GNil GNil False (GBool False) 0 Map.empty))"
proof -
  have h1: "\<not> 0 > MaxDepth exampleOptions"
    by (simp add: exampleOptions_def)
  have h2: "(noPrograms(''r1'' \<mapsto> xGreater5, ''c'' \<mapsto> divisionByZero)) (ID guarded)
              = Some xGreater5"
    by (simp add: guarded_def)
  have h3: "xGreater5 (addSelf [''x'' \<mapsto> GInt64 3] (Self guarded)) = Inr (GBool False)"
    by (simp add: guarded_def addSelf_def xGreater5_def SelfKey_def)
  have h4: "GBool False \<noteq> GBool True"
    by simp
  have h5: "StopIfParentNegative (ApplyOptions exampleOptions (Opts guarded))"
    by (simp add: guarded_def ApplyOptions_def exampleOptions_def)
  from C5_stop_if_parent_negative[where
      progs="noPrograms(''r1'' \<mapsto> xGreater5, ''c'' \<mapsto> divisionByZero)"
      and rule=guarded and program=xGreater5 and data="[''x'' \<mapsto> GInt64 3]"
      and rawValue="GBool False" and n=0 and opt=exampleOptions, OF h1 h2 h3 h4 h5]
  have "fst (evaluate (noPrograms(''r1'' \<mapsto> xGreater5, ''c'' \<mapsto> divisionByZero))
          [''x'' \<mapsto> GInt64 3] guarded 0 exampleOptions)
     = Inr (Some (Result ''r1'' GNil GNil False (GBool False) 0 Map.empty))"
    by (simp add: guarded_def)
  with h1 h2 h3 h4 h5 show ?thesis by blast
qed

text \<open>
  Claim C9. For a rule with a stored program evaluated within the depth limit, the data
  map the program runs on is \<open>addSelf data (Self rule)\<close>: under the self key it holds
  the rule's self value when that is set and nothing when it is unset, whatever the map
  held there before, and under every other key it holds what the caller's map holds.
  That this is the map the program runs on shows in the outcome: the program's error on
  it is the error of the evaluation, and its value on it is the \<open>Value\<close> of the result.
\<close>

theorem C9_self_injection:
  assumes "\<not> n > MaxDepth opt" and "progs (ID rule) = Some program"
  shows "(Self rule \<noteq> GNil \<longrightarrow> addSelf data (Self rule) SelfKey = Some (Self rule)) \<and>
         (Self rule = GNil \<longrightarrow> addSelf data (Self rule) SelfKey = None) \<and>
         (\<forall>k. k \<noteq> SelfKey \<longrightarrow> addSelf data (Self rule) k = data k) \<and>
         (case program (addSelf data (Self rule)) of
            Inl err \<Rightarrow>
              evaluate progs data rule n opt =
                (Inl (Failed (EvaluatingRule (ID rule) err)), addSelf data (Self rule))
          | Inr v \<Rightarrow>
              (case fst (evaluate progs data rule n opt) of
                 Inl f \<Rightarrow> True
               | Inr None \<Rightarrow> False
               | Inr (Some r) \<Rightarrow> Value r = v))"
proof -
  let ?d = "addSelf data (Self rule)"
  have inj: "(Self rule \<noteq> GNil \<longrightarrow> ?d SelfKey = Some (Self rule)) \<and>
         (Self rule = GNil \<longrightarrow> ?d SelfKey = None) \<and>
         (\<forall>k. k \<noteq> SelfKey \<longrightarrow> ?d k = data k)"
    by (simp add: addSelf_def)
  have run: "case program ?d of
            Inl err \<Rightarrow>
              evaluate progs data rule n opt = (Inl (Failed (EvaluatingRule (ID rule) err)), ?d)
          | Inr v \<Rightarrow>
              (case fst (evaluate progs data rule n opt) of
                 Inl f \<Rightarrow> True
               | Inr None \<Rightarrow> False
               | Inr (Some r) \<Rightarrow> Value r = v)"
  proof (cases "program ?d")
    case (Inl err)
    have "evaluate progs data rule n opt = (Inl (Failed (EvaluatingRule (ID rule) err)), ?d)"
      using assms Inl by (rule evaluate_program_error)
    then show ?thesis by (simp add: Inl)
  next
    case (Inr v)
    let ?pr = "Result (ID rule) (Rule.Meta rule) (Rule.Action rule) (v = GBool True) v n
                 Map.empty"
    have keeps: "case fst (evalChildren progs ?d (Rules rule) n
                             (ApplyOptions opt (Opts rule)) ?pr) of
        Inl f \<Rightarrow> True | Inr None \<Rightarrow> False | Inr (Some r) \<Rightarrow> Value r = v"
      using evalChildren_keeps[where progs=progs and data="?d" and cs="Rules rule" and n=n
          and opt="ApplyOptions opt (Opts rule)" and pr="?pr"]
      by (auto split: sum.splits option.splits)
    have ev: "evaluate progs data rule n opt =
       (if StopIfParentNegative (ApplyOptions opt (Opts rule)) \<and> v \<noteq> GBool True
        then (Inr (Some (Result (ID rule) (Rule.Meta rule) (Rule.Action rule) False v n
                          Map.empty)), ?d)
        else evalChildren progs ?d (Rules rule) n (ApplyOptions opt (Opts rule)) ?pr)"
      using assms Inr by (rule evaluate_program)
    show ?thesis using keeps by (auto simp: Inr ev)
  qed
  from inj run show ?thesis by blast
qed

theorem C9_witness:
  "\<not> 0 > MaxDepth exampleOptions \<and>
   (noPrograms(''r2'' \<mapsto> selfEcho)) (ID unselfed) = Some selfEcho \<and>
   addSelf staleData (Self unselfed) SelfKey = None \<and>
   addSelf staleData (Self unselfed) ''x'' = Some (GInt64 3) \<and>
   fst (evaluate (noPrograms(''r2'' \<mapsto> selfEcho)) staleData unselfed 0 exampleOptions)
     = Inr (Some (Result ''r2'' GNil GNil False GNil 0 Map.empty))"
proof -
  have h1: "\<not> 0 > MaxDepth exampleOptions"
    by (simp add: exampleOptions_def)
  have h2: "(noPrograms(''r2'' \<mapsto> selfEcho)) (ID unselfed) = Some selfEcho"
    by (simp add: unselfed_def)
  have k: "''x'' \<noteq> SelfKey"
    by (simp add: SelfKey_def)
  from C9_self_injection[where progs="noPrograms(''r2'' \<mapsto> selfEcho)" and rule=unselfed
      and program=selfEcho and data=staleData and n=0 and opt=exampleOptions, OF h1 h2] k
  have a: "addSelf staleData (Self unselfed) SelfKey = None"
    and b: "addSelf staleData (Self unselfed) ''x'' = Some (GInt64 3)"
    by (simp_all add: unselfed_def staleData_def)
  have c: "fst (evaluate (noPrograms(''r2'' \<mapsto> selfEcho)) staleData unselfed 0 exampleOptions)
     = Inr (Some (Result ''r2'' GNil GNil False GNil 0 Map.empty))"
    by (simp add: evaluate.simps unselfed_def staleData_def selfEcho_def addSelf_def
        exampleOptions_def ApplyOptions_def Let_def)
  from h1 h2 a b c show ?thesis by blast
qed

section \<open>Claims about registration\<close>

declare addRuleWithSchema.simps [simp del]









section \<open>Claims about Calculate\<close>

lemma Trim_Nil: "Trim [] cutset = []"
  by (simp add: Trim_def)

lemma AddRule_expression_rule:
  assumes "AddRule B e [Rule expr expr schema GNil GNil GNil [] []] = (err, e')"
    and "programs e expr = None"
  shows "case err of None \<Rightarrow> (\<exists>prg. programs e' expr = Some prg)
                   | Some x \<Rightarrow> programs e' expr = None"
proof (cases "Trim expr '' '' = []")
  case True
  with assms show ?thesis by auto
next
  case False
  then have ne: "expr \<noteq> []" using Trim_Nil by auto
  from assms False ne show ?thesis
    by (auto simp: addRuleWithSchema.simps split: sum.splits prod.splits option.splits)
qed

text \<open>
  Claim C8, as stated, fails. For the data \<^verbatim>\<open>{a: 2, b: 3}\<close>, the expression \<^verbatim>\<open>a+b\<close> and the
  schema \<^verbatim>\<open>{a: Int, b: Int}\<close> the program yields the integer 5, which is numeric, and
  \<open>Calculate\<close> returns the conversion error, not 5.0.
\<close>

theorem C8_counterexample:
  "fst (Calculate exampleBackend NewEngine abData ''a+b'' abSchema)
     = Inl (Failed (NotFloat64 (GInt64 5)))"
  by (simp add: Calculate_def calculateWith_def evaluateProgram_def Trim_def
      addRuleWithSchema.simps resolveSchema_def schemaToDeclarations_def compileRule_def
      abSchema_def abData_def aPlusB_def exampleBackend_def NewEngine_def)

text \<open>
  Claim C8, amended. Whenever \<open>Calculate\<close> has a program for the expression (found in
  the engine, or registered by this call) and that program evaluates on the data to
  \<open>result\<close>: \<open>Calculate\<close> returns \<open>result\<close> when its runtime type is \<^verbatim>\<open>float64\<close>, and the
  conversion error for a result of any other type, an integer included.
\<close>

theorem C8_calculate_float64_only:
  assumes "programs (snd (Calculate B e data expr schema)) expr = Some prg"
    and "prg data = Inr result"
  shows "fst (Calculate B e data expr schema) =
           (case result of
              GFloat64 val \<Rightarrow> Inr val
            | _ \<Rightarrow> Inl (Failed (NotFloat64 result)))"
proof (cases "programs e expr")
  case (Some p)
  with assms show ?thesis
    by (cases result) (simp_all add: Calculate_def calculateWith_def evaluateProgram_def)
next
  case None
  obtain err e' where a: "AddRule B e [Rule expr expr schema GNil GNil GNil [] []] = (err, e')"
    by (cases "AddRule B e [Rule expr expr schema GNil GNil GNil [] []]")
  from AddRule_expression_rule[OF a None] assms None a show ?thesis
    by (cases err; cases result)
      (simp_all add: Calculate_def calculateWith_def evaluateProgram_def)
qed

theorem C8_witness:
  "programs (snd (Calculate exampleBackend NewEngine abData ''2.5'' abSchema)) ''2.5''
     = Some twoAndAHalf \<and>
   twoAndAHalf abData = Inr (GFloat64 0x4004000000000000) \<and>
   fst (Calculate exampleBackend NewEngine abData ''2.5'' abSchema)
     = Inr 0x4004000000000000"
proof -
  have h1: "programs (snd (Calculate exampleBackend NewEngine abData ''2.5'' abSchema)) ''2.5''
     = Some twoAndAHalf"
    by (simp add: Calculate_def calculateWith_def evaluateProgram_def Trim_def
      addRuleWithSchema.simps resolveSchema_def schemaToDeclarations_def compileRule_def
      abSchema_def exampleBackend_def NewEngine_def)
  have h2: "twoAndAHalf abData = Inr (GFloat64 0x4004000000000000)"
    by (simp add: twoAndAHalf_def)
  from C8_calculate_float64_only[OF h1 h2]
  have "fst (Calculate exampleBackend NewEngine abData ''2.5'' abSchema)
     = Inr 0x4004000000000000"
    by simp
  with h1 h2 show ?thesis by blast
qed

section \<open>Claims about the rule set functions\<close>

text \<open>What \<^verbatim>\<open>EvaluateAll\<close> has collected stays in its results.\<close>

lemma evaluateAllLoop_keeps:
  "fst (evaluateAllLoop e st data ruleSetID rs acc) = (results, err) \<Longrightarrow>
     set acc \<subseteq> set results"
proof (induction rs arbitrary: st data acc)
  case Nil
  then show ?case by simp
next
  case (Cons x rs)
  obtain ruleID rule where x: "x = (ruleID, rule)" by (cases x)
  obtain out st' data' where ev: "EvaluateRule e st data ruleSetID ruleID = (out, st', data')"
    by (cases "EvaluateRule e st data ruleSetID ruleID")
  show ?case
  proof (cases out)
    case (Inl a)
    with Cons.prems x ev show ?thesis by simp
  next
    case (Inr res)
    show ?thesis
    proof (cases res)
      case None
      with Cons.prems x ev Inr show ?thesis by simp
    next
      case (Some r)
      with Cons.prems x ev Inr
      have "fst (evaluateAllLoop e st' data' ruleSetID rs (acc @ [r])) = (results, err)"
        by simp
      then have "set (acc @ [r]) \<subseteq> set results" by (rule Cons.IH)
      then show ?thesis by simp
    qed
  qed
qed

text \<open>
  When evaluating every rule gives no error and no passing result, the loop of
  \<^verbatim>\<open>EvaluateUntilTrue\<close> makes the same evaluations and ends with the zero result.
\<close>

lemma untilTrueLoop_none_passes:
  assumes "fst (evaluateAllLoop e st data ruleSetID rs acc) = (results, None)"
    and "\<forall>r \<in> set results. \<not> RuleSetResult.Pass r"
  shows "untilTrueLoop e st data ruleSetID rs =
           (Inr zeroResult, snd (evaluateAllLoop e st data ruleSetID rs acc))"
  using assms
proof (induction rs arbitrary: st data acc)
  case Nil
  show ?case by simp
next
  case (Cons x rs)
  obtain ruleID rule where x: "x = (ruleID, rule)" by (cases x)
  obtain out st' data' where ev: "EvaluateRule e st data ruleSetID ruleID = (out, st', data')"
    by (cases "EvaluateRule e st data ruleSetID ruleID")
  show ?case
  proof (cases out)
    case (Inl a)
    with Cons.prems x ev show ?thesis by simp
  next
    case (Inr res)
    show ?thesis
    proof (cases res)
      case None
      with Cons.prems x ev Inr show ?thesis by simp
    next
      case (Some r)
      with Cons.prems(1) x ev Inr
      have run: "fst (evaluateAllLoop e st' data' ruleSetID rs (acc @ [r])) = (results, None)"
        by simp
      then have "set (acc @ [r]) \<subseteq> set results" by (rule evaluateAllLoop_keeps)
      with Cons.prems(2) have np: "\<not> RuleSetResult.Pass r" by auto
      from run Cons.prems(2)
      have "untilTrueLoop e st' data' ruleSetID rs =
           (Inr zeroResult, snd (evaluateAllLoop e st' data' ruleSetID rs (acc @ [r])))"
        by (rule Cons.IH)
      with x ev Inr Some np show ?thesis by simp
    qed
  qed
qed

text \<open>
  Claim C10. When the rule set exists and no rule of it evaluates to \<open>Pass = True\<close> and
  no evaluation gives an error (evaluating all of its rules on this engine and this
  data, as \<^verbatim>\<open>EvaluateAll\<close> does, returns no error and only results that do not pass),
  \<open>EvaluateUntilTrue\<close> returns the zero result (empty \<open>RuleSetID\<close> and \<open>RuleID\<close>,
  \<open>Pass = False\<close>) and no error, having made the same evaluations. Its result is a
  value, not a pointer, so it cannot be nil.
\<close>

theorem C10_until_true_zero_result:
  assumes "RuleSet e st ruleSetID = (ruleSet, True)"
    and "fst (EvaluateAll e st data ruleSetID) = (results, None)"
    and "\<forall>r \<in> set results. \<not> RuleSetResult.Pass r"
  shows "fst (EvaluateUntilTrue e st data ruleSetID) = Inr zeroResult \<and>
         snd (EvaluateUntilTrue e st data ruleSetID) = snd (EvaluateAll e st data ruleSetID) \<and>
         RuleSetID zeroResult = [] \<and> RuleSetResult.RuleID zeroResult = [] \<and>
         RuleSetResult.Pass zeroResult = False"
proof -
  from assms(1,2)
  have "fst (evaluateAllLoop e st data ruleSetID (RuleSet.Rules ruleSet) []) = (results, None)"
    by (simp add: EvaluateAll_def)
  from untilTrueLoop_none_passes[OF this assms(3)] assms(1)
  show ?thesis
    by (simp add: EvaluateUntilTrue_def EvaluateAll_def zeroResult_def)
qed

text \<open>
  On the data \<^verbatim>\<open>{x: 3}\<close> neither \<^verbatim>\<open>x > 5\<close> nor \<^verbatim>\<open>x > 7\<close> passes.
\<close>

theorem C10_witness:
  "RuleSet thresholdEngine 0 ''rs'' = (exampleRuleSet, True) \<and>
   fst (EvaluateAll thresholdEngine 0 [''x'' \<mapsto> GInt64 3] ''rs'')
     = ([resultOf ''rs'' ''a'' False, resultOf ''rs'' ''b'' False], None) \<and>
   EvaluateUntilTrue thresholdEngine 0 [''x'' \<mapsto> GInt64 3] ''rs''
     = (Inr zeroResult, 2, [''x'' \<mapsto> GInt64 3])"
proof -
  have h1: "RuleSet thresholdEngine 0 ''rs'' = (exampleRuleSet, True)"
    by (simp add: thresholdEngine_def)
  have h2: "fst (EvaluateAll thresholdEngine 0 [''x'' \<mapsto> GInt64 3] ''rs'')
     = ([resultOf ''rs'' ''a'' False, resultOf ''rs'' ''b'' False], None)"
    by (simp add: EvaluateAll_def thresholdEngine_def exampleRuleSet_def)
  have h3: "\<forall>r \<in> set [resultOf ''rs'' ''a'' False, resultOf ''rs'' ''b'' False].
              \<not> RuleSetResult.Pass r"
    by (simp add: resultOf_def)
  have s: "snd (EvaluateAll thresholdEngine 0 [''x'' \<mapsto> GInt64 3] ''rs'')
      = (2, [''x'' \<mapsto> GInt64 3])"
    by (simp add: EvaluateAll_def thresholdEngine_def exampleRuleSet_def)
  from C10_until_true_zero_result[OF h1 h2 h3] s
  have "EvaluateUntilTrue thresholdEngine 0 [''x'' \<mapsto> GInt64 3] ''rs''
     = (Inr zeroResult, 2, [''x'' \<mapsto> GInt64 3])"
    by (simp add: prod_eq_iff)
  with h1 h2 show ?thesis by blast
qed

end
